theory Spec2Isabelle
  imports Main
begin

section \<open>Chunks and their diagnostics\<close>

text \<open>
  Modelled from the spec: the type \<open>linenumber_t\<close> of line numbers is declared in a header
  that is not among the sources. The specification counts lines from 1; the model takes a
  line number to be a natural number without an upper bound.
\<close>

type_synonym linenumber_t = nat

text \<open>\<open>struct timeval\<close>: seconds and microseconds, two independent signed fields.\<close>

record timeval =
  tv_sec :: int
  tv_usec :: int

datatype Status = NotRun | Ok | Fail

text \<open>
  Modelled from the spec: the classes \<open>Diagnostics\<close> and \<open>Chunk\<close> are declared in a header
  that is not among the sources. The fields are the ones section 3 of the specification
  lists, under the names \<open>db.cc\<close> and \<open>filter.cc\<close> use for them; the accessors
  \<open>getSql\<close> and \<open>getDescription\<close> return the statement text and the label.
\<close>

record Diagnostics =
  status :: Status
  runtime :: timeval
  error_line :: linenumber_t
  sqlstate :: string
  msg_primary :: string
  msg_detail :: string
  msg_hint :: string

record Chunk =
  start_line :: linenumber_t
  end_line :: linenumber_t
  sql :: string
  description :: string
  diagnostics :: Diagnostics

definition getSql :: "Chunk \<Rightarrow> string" where
  "getSql chunk = sql chunk"

definition getDescription :: "Chunk \<Rightarrow> string" where
  "getDescription chunk = description chunk"


section \<open>Filters (filter.cc)\<close>

text \<open>
  The three concrete filter classes. A \<open>LineFilter\<close> owns the vector \<open>linenumbers\<close>;
  the two regular-expression filters have no member that \<open>filter.cc\<close> reads or writes.
\<close>

datatype Filter =
    LineFilter (linenumbers: "linenumber_t list")
  | DescriptionRegexFilter
  | ContentRegexFilter

text \<open>\<open>LineFilter::match\<close>: the loop over \<open>linenumbers\<close>, leaving at the first hit.\<close>

fun LineFilter_match :: "linenumber_t list \<Rightarrow> Chunk \<Rightarrow> bool" where
  "LineFilter_match [] chunk = False"
| "LineFilter_match (number # rest) chunk =
     (if start_line chunk \<le> number \<and> end_line chunk \<ge> number then True
      else LineFilter_match rest chunk)"

text \<open>\<open>RegexFilter::matchString\<close> and \<open>RegexFilter::setParams\<close>, as they stand in the source.\<close>

definition RegexFilter_matchString :: "string \<Rightarrow> bool" where
  "RegexFilter_matchString str = True"


definition DescriptionRegexFilter_match :: "Chunk \<Rightarrow> bool" where
  "DescriptionRegexFilter_match chunk = (let desc = getDescription chunk in RegexFilter_matchString desc)"

definition ContentRegexFilter_match :: "Chunk \<Rightarrow> bool" where
  "ContentRegexFilter_match chunk = (let sql = getSql chunk in RegexFilter_matchString sql)"

text \<open>The virtual call \<open>filter->match(chunk)\<close>.\<close>

fun Filter_match :: "Filter \<Rightarrow> Chunk \<Rightarrow> bool" where
  "Filter_match (LineFilter ns) chunk = LineFilter_match ns chunk"
| "Filter_match DescriptionRegexFilter chunk = DescriptionRegexFilter_match chunk"
| "Filter_match ContentRegexFilter chunk = ContentRegexFilter_match chunk"

text \<open>\<open>FilterChain::match\<close>: the loop over the owned filters, leaving at the first one that
  does not match.\<close>

fun FilterChain_match :: "Filter list \<Rightarrow> Chunk \<Rightarrow> bool" where
  "FilterChain_match [] chunk = True"
| "FilterChain_match (f # rest) chunk =
     (if \<not> Filter_match f chunk then False else FilterChain_match rest chunk)"

definition addFilter :: "Filter list \<Rightarrow> Filter \<Rightarrow> Filter list" where
  "addFilter filters f = filters @ [f]"

subsection \<open>Parsing the parameters of a line filter\<close>





text \<open>
  An extraction for the examples: leading blanks are skipped and the longest run of
  decimal digits is read; it fails when there is no digit. What follows the digits
  stays in the stream unread, as with \<open>operator>>\<close>.
\<close>

definition digit_val :: "char \<Rightarrow> nat" where
  "digit_val c = of_char c - of_char (CHR ''0'')"

definition is_digit :: "char \<Rightarrow> bool" where
  "is_digit c = (c \<in> set ''0123456789'')"

definition isspace :: "char \<Rightarrow> bool" where
  "isspace c = (c \<in> set [CHR '' '', CHR 0x09, CHR 0x0A, CHR 0x0B, CHR 0x0C, CHR 0x0D])"



section \<open>The execution engine (db.cc)\<close>

subsection \<open>Time differences\<close>

text \<open>Division of C++ integers truncates towards zero.\<close>

definition cdiv :: "int \<Rightarrow> int \<Rightarrow> int" where
  "cdiv a b = sgn a * sgn b * (\<bar>a\<bar> div \<bar>b\<bar>)"

text \<open>
  \<open>timeval_subtract(result, x, y)\<close>. Both \<open>x\<close> and \<open>y\<close> are references and \<open>y\<close> is
  changed, so the model returns the value returned, \<open>result\<close> and the new \<open>y\<close>.
  The fields are integers without bounds.
\<close>

definition timeval_subtract :: "timeval \<Rightarrow> timeval \<Rightarrow> bool \<times> timeval \<times> timeval" where
  "timeval_subtract x y =
     (let y1 = (if tv_usec x < tv_usec y then
                  (let nsec = cdiv (tv_usec y - tv_usec x) 1000000 + 1
                   in \<lparr>tv_sec = tv_sec y + nsec, tv_usec = tv_usec y - 1000000 * nsec\<rparr>)
                else y);
          y2 = (if tv_usec x - tv_usec y1 > 1000000 then
                  (let nsec = cdiv (tv_usec x - tv_usec y1) 1000000
                   in \<lparr>tv_sec = tv_sec y1 - nsec, tv_usec = tv_usec y1 + 1000000 * nsec\<rparr>)
                else y1);
          result = \<lparr>tv_sec = tv_sec x - tv_sec y2, tv_usec = tv_usec x - tv_usec y2\<rparr>
      in (tv_sec x < tv_sec y2, result, y2))"



subsection \<open>The database connection and the system\<close>

datatype ConnStatusType = CONNECTION_OK | CONNECTION_BAD

datatype ExecStatusType =
    PGRES_EMPTY_QUERY | PGRES_COMMAND_OK | PGRES_TUPLES_OK | PGRES_COPY_OUT | PGRES_COPY_IN
  | PGRES_BAD_RESPONSE | PGRES_NONFATAL_ERROR | PGRES_FATAL_ERROR | PGRES_COPY_BOTH
  | PGRES_SINGLE_TUPLE

text \<open>A \<open>PGresult\<close>: its status and the error fields \<open>runChunk\<close> asks for; \<open>None\<close> is the
  null pointer \<open>PQresultErrorField\<close> returns for a field that is absent.\<close>

record PGresult =
  resultStatus :: ExecStatusType
  diag_statement_position :: "string option"
  diag_sqlstate :: "string option"
  diag_message_primary :: "string option"
  diag_message_detail :: "string option"
  diag_message_hint :: "string option"

text \<open>
  A connection is known by how the server behind it answers. The answers may depend on
  the statements handed to \<open>PQexec\<close> before (oldest first):
  \<^item> \<open>status_after\<close>: what \<open>PQstatus\<close> reports;
  \<^item> \<open>reply_after\<close>: what \<open>PQexec\<close> returns for a statement, \<open>None\<close> being the null pointer;
  \<^item> \<open>getCancel_after\<close>: what \<open>PQgetCancel\<close> returns, \<open>None\<close> being the null pointer.
  A cancel handle is known by what \<open>PQcancel\<close> does with it: the value it returns and the
  text it leaves in the buffer \<open>cnclbuf\<close> of \<open>CANCEL_BUF_SIZE\<close> bytes.
\<close>

type_synonym PGcancel = "int \<times> string"

record PGconn =
  status_after :: "string list \<Rightarrow> ConnStatusType"
  reply_after :: "string list \<Rightarrow> string \<Rightarrow> PGresult option"
  getCancel_after :: "string list \<Rightarrow> PGcancel option"

text \<open>
  What \<open>db.cc\<close> takes from outside the connection: the clock (\<open>gettimeofday\<close> yields a time
  or fails with the text of \<open>errno\<close>; the reading may depend on the statements sent so far),
  and two declarations of headers that are not among the sources: the constant
  \<open>LINE_NUMBER_NOT_AVAILABLE\<close> and the default of the parameter \<open>silent\<close> of \<open>executeSql\<close>.
\<close>

record env =
  clock_after :: "string list \<Rightarrow> string + timeval"
  LINE_NUMBER_NOT_AVAILABLE :: linenumber_t
  silent_default :: bool

datatype LogLevel = LogDebug | LogWarn | LogError

text \<open>
  The members of \<open>Db\<close>: \<open>conn\<close> (\<open>None\<close> is the null pointer), \<open>do_commit\<close>, \<open>failed_count\<close>
  and \<open>in_transaction\<close>. Two more fields make the effects visible: \<open>sent\<close>, the statements
  handed to \<open>PQexec\<close> so far, and \<open>logged\<close>, the messages written with \<open>log_debug\<close>,
  \<open>log_warn\<close> and \<open>log_error\<close>. The counter is an integer without bounds.
\<close>

record Db =
  conn :: "PGconn option"
  do_commit :: bool
  failed_count :: int
  in_transaction :: bool
  sent :: "string list"
  logged :: "(LogLevel \<times> string) list"

text \<open>How a call ends when it does not return: with a \<open>DbException\<close> and its message, or in
  behaviour the language leaves undefined.\<close>

datatype failure = DbException string | Undefined_behaviour

definition log_debug :: "string \<Rightarrow> Db \<Rightarrow> Db" where
  "log_debug m db = db\<lparr>logged := logged db @ [(LogDebug, m)]\<rparr>"

definition log_warn :: "string \<Rightarrow> Db \<Rightarrow> Db" where
  "log_warn m db = db\<lparr>logged := logged db @ [(LogWarn, m)]\<rparr>"

definition log_error :: "string \<Rightarrow> Db \<Rightarrow> Db" where
  "log_error m db = db\<lparr>logged := logged db @ [(LogError, m)]\<rparr>"

definition PQstatus :: "Db \<Rightarrow> ConnStatusType" where
  "PQstatus db = (case conn db of None \<Rightarrow> CONNECTION_BAD | Some c \<Rightarrow> status_after c (sent db))"

definition PQexec :: "string \<Rightarrow> Db \<Rightarrow> PGresult option \<times> Db" where
  "PQexec q db =
     ((case conn db of None \<Rightarrow> None | Some c \<Rightarrow> reply_after c (sent db) q),
      db\<lparr>sent := sent db @ [q]\<rparr>)"

definition gettimeofday :: "env \<Rightarrow> Db \<Rightarrow> string + timeval" where
  "gettimeofday e db = clock_after e (sent db)"

definition is_error :: "PGresult \<Rightarrow> bool" where
  "is_error pgres =
     (resultStatus pgres = PGRES_FATAL_ERROR \<or> resultStatus pgres = PGRES_NONFATAL_ERROR)"

subsection \<open>The constructor and the transaction\<close>

definition Db_new :: Db where
  "Db_new = \<lparr>conn = None, do_commit = False, failed_count = 0, in_transaction = False,
             sent = [], logged = []\<rparr>"

definition isConnected :: "Db \<Rightarrow> bool \<times> Db" where
  "isConnected db =
     (if PQstatus db \<noteq> CONNECTION_OK then (False, log_debug ''no db connection'' db)
      else (True, log_debug ''got a working db connection'' db))"

text \<open>\<open>Db::connect\<close>, with \<open>c\<close> the pointer \<open>PQsetdbLogin\<close> returns.\<close>

definition connect :: "PGconn option \<Rightarrow> Db \<Rightarrow> bool \<times> Db" where
  "connect c db = isConnected (db\<lparr>conn := c\<rparr>)"

text \<open>\<open>executeSql(sqlstr, silent)\<close>. A null \<open>error_primary\<close> adds nothing to the message.\<close>

definition executeSql :: "string \<Rightarrow> bool \<Rightarrow> Db \<Rightarrow> (failure + unit) \<times> Db" where
  "executeSql sqlstr silent db =
     (case isConnected db of (connected, db1) \<Rightarrow>
      let db2 = (if \<not> connected then log_warn ''can not run chunk - no db connection'' db1 else db1);
          db3 = log_debug (''executing sql: '' @ sqlstr) db2
      in case PQexec sqlstr db3 of (pgres, db4) \<Rightarrow>
         (case pgres of
            None \<Rightarrow> (Inl (DbException ''PQExec failed''), log_error ''PQExec failed'' db4)
          | Some res \<Rightarrow>
              if is_error res then
                (let error_primary = (case diag_message_primary res of None \<Rightarrow> [] | Some m \<Rightarrow> m);
                     msg = ''could not execute query '' @ [CHR 0x22] @ sqlstr @ [CHR 0x22] @ '': '' @ error_primary;
                     db5 = (if \<not> silent then log_error msg db4 else db4)
                 in (Inl (DbException msg), db5))
              else (Inr (), db4)))"

definition Db_begin :: "env \<Rightarrow> Db \<Rightarrow> (failure + unit) \<times> Db" where
  "Db_begin e db =
     (if \<not> in_transaction db then
        (case executeSql ''begin;'' (silent_default e) db of
           (Inl x, db1) \<Rightarrow> (Inl x, db1)
         | (Inr u, db1) \<Rightarrow> (Inr (), db1\<lparr>in_transaction := True\<rparr>))
      else (Inr (), db))"

definition rollback :: "env \<Rightarrow> Db \<Rightarrow> (failure + unit) \<times> Db" where
  "rollback e db =
     (if in_transaction db then
        (case executeSql ''rollback;'' (silent_default e) db of
           (Inl x, db1) \<Rightarrow> (Inl x, db1)
         | (Inr u, db1) \<Rightarrow> (Inr (), db1\<lparr>in_transaction := False\<rparr>))
      else (Inr (), db))"

definition commit :: "env \<Rightarrow> Db \<Rightarrow> (failure + unit) \<times> Db" where
  "commit e db =
     (if \<not> do_commit db then rollback e db
      else if in_transaction db then
        (case executeSql ''commit;'' (silent_default e) db of
           (Inl x, db1) \<Rightarrow> (Inl x, db1)
         | (Inr u, db1) \<Rightarrow> (Inr (), db1\<lparr>in_transaction := False\<rparr>))
      else (Inr (), db))"

definition finish :: "env \<Rightarrow> Db \<Rightarrow> (failure + unit) \<times> Db" where
  "finish e db =
     (case (if failed_count db > 0 then rollback e db else commit e db) of
        (Inl x, db1) \<Rightarrow> (Inl x, db1)
      | (Inr u, db1) \<Rightarrow> (Inr (), db1\<lparr>failed_count := 0\<rparr>))"


subsection \<open>Running a chunk\<close>

text \<open>
  \<open>atoi\<close>: blanks, an optional sign, decimal digits. Where the value does not fit an
  \<open>int\<close> of 32 bits the behaviour is undefined (\<open>None\<close>).
\<close>

definition atoi :: "string \<Rightarrow> int option" where
  "atoi s =
     (let s1 = dropWhile isspace s;
          negative = (s1 \<noteq> [] \<and> hd s1 = CHR ''-'');
          s2 = (if s1 \<noteq> [] \<and> (hd s1 = CHR ''-'' \<or> hd s1 = CHR ''+'') then tl s1 else s1);
          v = int (foldl (\<lambda>acc c. 10 * acc + digit_val c) 0 (takeWhile is_digit s2));
          r = (if negative then - v else v)
      in if - 2147483648 \<le> r \<and> r \<le> 2147483647 then Some r else None)"

text \<open>
  Lines 146 to 160: the line of the error. \<open>sql.begin() + pos\<close> with a negative \<open>pos\<close> is
  an iterator in front of the string, which is undefined behaviour.
\<close>

definition runChunk_error_line ::
  "env \<Rightarrow> PGresult \<Rightarrow> string \<Rightarrow> Chunk \<Rightarrow> Db \<Rightarrow> (failure + unit) \<times> Chunk \<times> Db" where
  "runChunk_error_line e pgres sqltext chunk db =
     (case diag_statement_position pgres of
        Some statement_position \<Rightarrow>
          (case atoi statement_position of
             None \<Rightarrow> (Inl Undefined_behaviour, chunk, db)
           | Some pos \<Rightarrow>
               if pos < 0 then (Inl Undefined_behaviour, chunk, db)
               else if pos < int (length sqltext) then
                 (Inr (),
                  chunk\<lparr>diagnostics := (diagnostics chunk)\<lparr>error_line :=
                    start_line chunk + count_list (take (nat pos) sqltext) (CHR 0x0A)\<rparr>\<rparr>,
                  db)
               else
                 (Inr (), chunk,
                  log_error ''PG_DIAG_STATEMENT_POSITION is beyond the length of sql string'' db))
      | None \<Rightarrow>
          (Inr (),
           chunk\<lparr>diagnostics := (diagnostics chunk)\<lparr>error_line := LINE_NUMBER_NOT_AVAILABLE e\<rparr>\<rparr>,
           log_debug ''got an empty PG_DIAG_STATEMENT_POSITION'' db))"

text \<open>Lines 162 to 180: the fields of the error report that are present.\<close>

definition runChunk_messages :: "PGresult \<Rightarrow> Diagnostics \<Rightarrow> Diagnostics" where
  "runChunk_messages pgres d =
     (let d1 = (case diag_sqlstate pgres of Some v \<Rightarrow> d\<lparr>sqlstate := v\<rparr> | None \<Rightarrow> d);
          d2 = (case diag_message_primary pgres of Some v \<Rightarrow> d1\<lparr>msg_primary := v\<rparr> | None \<Rightarrow> d1);
          d3 = (case diag_message_detail pgres of Some v \<Rightarrow> d2\<lparr>msg_detail := v\<rparr> | None \<Rightarrow> d2);
          d4 = (case diag_message_hint pgres of Some v \<Rightarrow> d3\<lparr>msg_hint := v\<rparr> | None \<Rightarrow> d3)
      in d4)"

text \<open>Lines 141 to 181: what is done with the result of the chunk's statement.\<close>

definition runChunk_result ::
  "env \<Rightarrow> PGresult \<Rightarrow> string \<Rightarrow> Chunk \<Rightarrow> Db \<Rightarrow> (failure + unit) \<times> Chunk \<times> Db" where
  "runChunk_result e pgres sqltext chunk db =
     (if is_error pgres then
        (case runChunk_error_line e pgres sqltext
                (chunk\<lparr>diagnostics := (diagnostics chunk)\<lparr>status := Fail\<rparr>\<rparr>) db of
           (Inl x, chunk1, db1) \<Rightarrow> (Inl x, chunk1, db1)
         | (Inr u, chunk1, db1) \<Rightarrow>
             (Inr (), chunk1\<lparr>diagnostics := runChunk_messages pgres (diagnostics chunk1)\<rparr>, db1))
      else (Inr (), chunk, db))"

text \<open>Lines 185 to 193: the savepoint is rolled back to or released.\<close>

definition runChunk_savepoint ::
  "env \<Rightarrow> Chunk \<Rightarrow> Db \<Rightarrow> (failure + bool) \<times> Chunk \<times> Db" where
  "runChunk_savepoint e chunk db =
     (if status (diagnostics chunk) \<noteq> Ok then
        (case executeSql ''rollback to savepoint chunk;'' (silent_default e) db of
           (Inl x, db1) \<Rightarrow> (Inl x, chunk, db1)
         | (Inr u, db1) \<Rightarrow>
             (Inr (status (diagnostics chunk) = Ok), chunk,
              db1\<lparr>failed_count := failed_count db1 + 1\<rparr>))
      else
        (case executeSql ''release savepoint chunk;'' (silent_default e) db of
           (Inl x, db1) \<Rightarrow> (Inl x, chunk, db1)
         | (Inr u, db1) \<Rightarrow> (Inr (status (diagnostics chunk) = Ok), chunk, db1)))"

text \<open>
  \<open>Db::runChunk(chunk)\<close>. The chunk is a reference: what was written to it before an
  exception stays written, so the chunk and the engine are returned in every case.
\<close>

definition runChunk :: "env \<Rightarrow> Chunk \<Rightarrow> Db \<Rightarrow> (failure + bool) \<times> Chunk \<times> Db" where
  "runChunk e chunk db =
     (case isConnected db of (connected, db1) \<Rightarrow>
      if \<not> connected then (Inl (DbException ''lost db connection''), chunk, db1)
      else
      (case Db_begin e db1 of
         (Inl x, db2) \<Rightarrow> (Inl x, chunk, db2)
       | (Inr u, db2) \<Rightarrow>
      let sql = getSql chunk;
          chunk1 = chunk\<lparr>diagnostics := (diagnostics chunk)\<lparr>status := Ok\<rparr>\<rparr>
      in
      (case gettimeofday e db2 of
         Inl errno \<Rightarrow> (Inl (DbException errno), chunk1, db2)
       | Inr start_time \<Rightarrow>
      (case executeSql ''savepoint chunk;'' (silent_default e) db2 of
         (Inl x, db3) \<Rightarrow> (Inl x, chunk1, db3)
       | (Inr u, db3) \<Rightarrow>
      (case PQexec sql db3 of (pgres, db4) \<Rightarrow>
      (case pgres of
         None \<Rightarrow> (Inl (DbException ''PQExec failed''), chunk1, log_error ''PQExec failed'' db4)
       | Some res \<Rightarrow>
      (case gettimeofday e db4 of
         Inl errno \<Rightarrow> (Inl (DbException errno), chunk1, db4)
       | Inr end_time \<Rightarrow>
      let chunk2 = chunk1\<lparr>diagnostics := (diagnostics chunk1)\<lparr>runtime :=
                     fst (snd (timeval_subtract end_time start_time))\<rparr>\<rparr>
      in
      (case runChunk_result e res sql chunk2 db4 of
         (Inl x, chunk3, db5) \<Rightarrow> (Inl x, chunk3, db5)
       | (Inr u, chunk3, db5) \<Rightarrow> runChunk_savepoint e chunk3 db5))))))))"

subsection \<open>Cancelling\<close>

definition PQgetCancel :: "Db \<Rightarrow> PGcancel option" where
  "PQgetCancel db = (case conn db of None \<Rightarrow> None | Some c \<Rightarrow> getCancel_after c (sent db))"

definition PQcancel :: "PGcancel \<Rightarrow> int \<times> string" where
  "PQcancel cncl = cncl"

text \<open>\<open>Db::cancel(errmsg)\<close>: the value returned, \<open>errmsg\<close> afterwards, and the engine.\<close>

definition cancel :: "string \<Rightarrow> Db \<Rightarrow> bool \<times> string \<times> Db" where
  "cancel errmsg db =
     (case isConnected db of (connected, db1) \<Rightarrow>
      if \<not> connected then (True, errmsg, log_debug ''not connected - no query to cancel'' db1)
      else
      (case PQgetCancel db1 of
         None \<Rightarrow> (False, errmsg, log_error ''could not get PGCancel pointer'' db1)
       | Some cncl \<Rightarrow>
           (let db2 = log_debug ''Query successfuly canceled'' db1
            in case PQcancel cncl of (rc, cnclbuf) \<Rightarrow>
               if rc \<noteq> 1 then
                 (False, cnclbuf, log_debug (''could not cancel running query: '' @ cnclbuf) db2)
               else (True, errmsg, db2))))"


subsection \<open>Notions used to state the properties\<close>

text \<open>A chunk as the splitter hands it over: nothing has run yet.\<close>

definition new_chunk :: "linenumber_t \<Rightarrow> linenumber_t \<Rightarrow> string \<Rightarrow> string \<Rightarrow> Chunk" where
  "new_chunk first_line last_line text label =
     \<lparr>start_line = first_line, end_line = last_line, sql = text, description = label,
      diagnostics = \<lparr>status = NotRun, runtime = \<lparr>tv_sec = 0, tv_usec = 0\<rparr>, error_line = 0,
                     sqlstate = [], msg_primary = [], msg_detail = [], msg_hint = []\<rparr>\<rparr>"


text \<open>The server answers the statement \<open>q\<close>, sent after the statements \<open>h\<close>, with a result
  that is no error.\<close>

definition accepted :: "PGconn option \<Rightarrow> string list \<Rightarrow> string \<Rightarrow> bool" where
  "accepted c h q =
     (case c of None \<Rightarrow> False
      | Some k \<Rightarrow> (case reply_after k h q of None \<Rightarrow> False | Some res \<Rightarrow> \<not> is_error res))"

definition readable :: "string + timeval \<Rightarrow> bool" where
  "readable t = (case t of Inl errno \<Rightarrow> False | Inr v \<Rightarrow> True)"

text \<open>
  \<open>runChunk\<close> gets as far as the chunk's statement and the database answers it with
  \<open>res\<close>: the connection is usable, the outer transaction is open or \<open>begin;\<close> is accepted,
  the clock can be read before and after, and \<open>savepoint chunk;\<close> is accepted.
\<close>

definition reaches_statement :: "env \<Rightarrow> Chunk \<Rightarrow> Db \<Rightarrow> PGresult \<Rightarrow> bool" where
  "reaches_statement e chunk db res =
     (let h = sent db @ (if in_transaction db then [] else [''begin;''])
      in PQstatus db = CONNECTION_OK
         \<and> (in_transaction db \<or> accepted (conn db) (sent db) ''begin;'')
         \<and> readable (clock_after e h)
         \<and> accepted (conn db) h ''savepoint chunk;''
         \<and> (case conn db of None \<Rightarrow> False
             | Some c \<Rightarrow> reply_after c (h @ [''savepoint chunk;'']) (sql chunk) = Some res)
         \<and> readable (clock_after e (h @ [''savepoint chunk;'', sql chunk])))"

text \<open>The four members of the class agree in two states of the engine.\<close>

definition same_members :: "Db \<Rightarrow> Db \<Rightarrow> bool" where
  "same_members db db' =
     (conn db' = conn db \<and> do_commit db' = do_commit db \<and> failed_count db' = failed_count db
      \<and> in_transaction db' = in_transaction db)"

text \<open>The statement that ends the outer transaction when \<open>finish\<close> is called.\<close>

definition closing_statement :: "Db \<Rightarrow> string" where
  "closing_statement db =
     (if 0 < failed_count db \<or> \<not> do_commit db then ''rollback;'' else ''commit;'')"

text \<open>The position the database reports, if any, is a number that is not negative and fits
  an \<open>int\<close>.\<close>

definition position_defined :: "PGresult \<Rightarrow> bool" where
  "position_defined res =
     (case diag_statement_position res of None \<Rightarrow> True
      | Some p \<Rightarrow> (case atoi p of None \<Rightarrow> False | Some pos \<Rightarrow> 0 \<le> pos))"

text \<open>The statement that ends the savepoint of a chunk whose statement got the answer \<open>res\<close>.\<close>

definition savepoint_statement :: "PGresult \<Rightarrow> string" where
  "savepoint_statement res =
     (if is_error res then ''rollback to savepoint chunk;'' else ''release savepoint chunk;'')"


text \<open>
  The states of an engine on which nobody set \<open>do_commit\<close> and on which every chunk that
  was run succeeded: the engine as constructed, and what \<open>connect\<close>, \<open>cancel\<close>, \<open>finish\<close>
  and a \<open>runChunk\<close> that returns true make of such a state.
\<close>

inductive clean_run :: "env \<Rightarrow> Db \<Rightarrow> bool" for e where
  constructed: "clean_run e Db_new"
| connected: "clean_run e db \<Longrightarrow> clean_run e (snd (connect c db))"
| cancelled: "clean_run e db \<Longrightarrow> clean_run e (snd (snd (cancel errmsg db)))"
| finished: "clean_run e db \<Longrightarrow> clean_run e (snd (finish e db))"
| chunk_succeeded:
    "clean_run e db \<Longrightarrow> runChunk e chunk db = (Inr True, chunk', db') \<Longrightarrow> clean_run e db'"

subsection \<open>Servers and chunks for the examples\<close>

definition ok_result :: PGresult where
  "ok_result = \<lparr>resultStatus = PGRES_COMMAND_OK, diag_statement_position = None,
     diag_sqlstate = None, diag_message_primary = None, diag_message_detail = None,
     diag_message_hint = None\<rparr>"

definition error_result :: "string option \<Rightarrow> PGresult" where
  "error_result p = \<lparr>resultStatus = PGRES_FATAL_ERROR, diag_statement_position = p,
     diag_sqlstate = Some ''42601'', diag_message_primary = Some ''syntax error'',
     diag_message_detail = None, diag_message_hint = None\<rparr>"

text \<open>A server that rejects the statement \<open>bad\<close>, reporting the position \<open>p\<close>, and accepts
  every other statement; its cancel requests cannot be delivered.\<close>

definition example_server :: "string \<Rightarrow> string option \<Rightarrow> PGconn" where
  "example_server bad p =
     \<lparr>status_after = (\<lambda>h. CONNECTION_OK),
      reply_after = (\<lambda>h q. if q = bad then Some (error_result p) else Some ok_result),
      getCancel_after = (\<lambda>h. Some (0, ''connect() failed''))\<rparr>"

text \<open>A server that ends the connection with a fatal error when it gets the statement
  \<open>bad\<close>: from then on \<open>PQexec\<close> returns the null pointer.\<close>

definition lost_server :: "string \<Rightarrow> PGconn" where
  "lost_server bad =
     \<lparr>status_after = (\<lambda>h. if bad \<in> set h then CONNECTION_BAD else CONNECTION_OK),
      reply_after = (\<lambda>h q. if bad \<in> set h then None
                            else if q = bad then Some (error_result None) else Some ok_result),
      getCancel_after = (\<lambda>h. None)\<rparr>"

definition example_env :: env where
  "example_env =
     \<lparr>clock_after = (\<lambda>h. if ''savepoint chunk;'' \<in> set h
                           then Inr \<lparr>tv_sec = 6, tv_usec = 100000\<rparr>
                           else Inr \<lparr>tv_sec = 5, tv_usec = 900000\<rparr>),
      LINE_NUMBER_NOT_AVAILABLE = 0, silent_default = False\<rparr>"

lemmas ex_defs = ok_result_def error_result_def example_server_def lost_server_def example_env_def
  new_chunk_def Db_new_def
lemmas run_defs = runChunk_def runChunk_result_def runChunk_error_line_def runChunk_messages_def
  runChunk_savepoint_def executeSql_def Db_begin_def isConnected_def PQstatus_def PQexec_def
  gettimeofday_def log_debug_def log_warn_def log_error_def is_error_def getSql_def
  timeval_subtract_def cdiv_def atoi_def isspace_def is_digit_def digit_val_def Let_def
  finish_def commit_def rollback_def accepted_def readable_def reaches_statement_def
  position_defined_def savepoint_statement_def


section \<open>Properties of the filters\<close>

lemma LineFilter_match_set:
  "LineFilter_match ns chunk = (\<exists>n\<in>set ns. start_line chunk \<le> n \<and> n \<le> end_line chunk)"
  by (induction ns) auto

text \<open>
  C7. A line filter matches a chunk exactly when one of its line numbers lies between the
  chunk's first and last line, both included. The instances of the claim, line 5 against
  the chunks of lines 3 to 7 and 8 to 10, follow.
\<close>

theorem LineFilter_match_iff:
  "Filter_match (LineFilter ns) chunk
     \<longleftrightarrow> (\<exists>n\<in>set ns. start_line chunk \<le> n \<and> n \<le> end_line chunk)"
  by (simp add: LineFilter_match_set)

theorem LineFilter_match_iff_witness:
  "Filter_match (LineFilter [5]) (new_chunk 3 7 ''select 1;'' ''one'')
   \<and> \<not> Filter_match (LineFilter [5]) (new_chunk 8 10 ''select 1;'' ''one'')"
  using LineFilter_match_iff [of "[5]" "new_chunk 3 7 ''select 1;'' ''one''"]
        LineFilter_match_iff [of "[5]" "new_chunk 8 10 ''select 1;'' ''one''"]
  by (simp add: new_chunk_def)

lemma FilterChain_match_all:
  "FilterChain_match fs chunk = (\<forall>f\<in>set fs. Filter_match f chunk)"
  by (induction fs) auto

text \<open>
  C8. A chain matches a chunk exactly when each of its filters does; the empty chain
  matches every chunk; a chain that contains a filter which does not match the chunk does
  not match it, whatever stands before and behind that filter.
\<close>

theorem FilterChain_match_iff:
  "(FilterChain_match fs chunk \<longleftrightarrow> (\<forall>f\<in>set fs. Filter_match f chunk))
   \<and> FilterChain_match [] chunk
   \<and> (\<not> Filter_match g chunk \<longrightarrow> \<not> FilterChain_match (pre @ g # post) chunk)"
  by (auto simp: FilterChain_match_all)

theorem FilterChain_match_iff_witness:
  "FilterChain_match [] (new_chunk 3 7 ''select 1;'' ''one'')
   \<and> \<not> Filter_match (LineFilter []) (new_chunk 3 7 ''select 1;'' ''one'')
   \<and> \<not> FilterChain_match ([DescriptionRegexFilter] @ LineFilter [] # [ContentRegexFilter])
         (new_chunk 3 7 ''select 1;'' ''one'')
   \<and> FilterChain_match [DescriptionRegexFilter, LineFilter [5]]
         (new_chunk 3 7 ''select 1;'' ''one'')"
  using FilterChain_match_iff [of "[DescriptionRegexFilter, LineFilter [5]]"
          "new_chunk 3 7 ''select 1;'' ''one''"
          "LineFilter []" "[DescriptionRegexFilter]" "[ContentRegexFilter]"]
  by (simp add: new_chunk_def DescriptionRegexFilter_match_def RegexFilter_matchString_def)









section \<open>Properties of the execution engine\<close>






subsection \<open>Statements, transactions and the end of a run\<close>

lemma isConnected_effect:
  "isConnected db = (PQstatus db = CONNECTION_OK,
     log_debug (if PQstatus db = CONNECTION_OK then ''got a working db connection''
                else ''no db connection'') db)"
  by (simp add: isConnected_def)

lemma log_simps [simp]:
  "sent (log_debug m db) = sent db" "conn (log_debug m db) = conn db"
  "do_commit (log_debug m db) = do_commit db" "failed_count (log_debug m db) = failed_count db"
  "in_transaction (log_debug m db) = in_transaction db"
  "logged (log_debug m db) = logged db @ [(LogDebug, m)]"
  "sent (log_warn m db) = sent db" "conn (log_warn m db) = conn db"
  "do_commit (log_warn m db) = do_commit db" "failed_count (log_warn m db) = failed_count db"
  "in_transaction (log_warn m db) = in_transaction db"
  "logged (log_warn m db) = logged db @ [(LogWarn, m)]"
  "sent (log_error m db) = sent db" "conn (log_error m db) = conn db"
  "do_commit (log_error m db) = do_commit db" "failed_count (log_error m db) = failed_count db"
  "in_transaction (log_error m db) = in_transaction db"
  "logged (log_error m db) = logged db @ [(LogError, m)]"
  by (simp_all add: log_debug_def log_warn_def log_error_def)

lemma PQstatus_log [simp]:
  "PQstatus (log_debug m db) = PQstatus db" "PQstatus (log_warn m db) = PQstatus db"
  "PQstatus (log_error m db) = PQstatus db"
  by (simp_all add: PQstatus_def split: option.splits)

lemma executeSql_effect:
  assumes "executeSql q sl db = (r, db')"
  shows "sent db' = sent db @ [q]" and "same_members db db'"
    and "set (logged db) \<subseteq> set (logged db')"
    and "r = Inr () \<longleftrightarrow> accepted (conn db) (sent db) q"
    and "r \<noteq> Inl Undefined_behaviour"
  using assms
  by (auto simp: executeSql_def isConnected_effect PQexec_def accepted_def same_members_def Let_def
           split: option.splits if_splits)

lemma executeSql_accepted:
  assumes "accepted (conn db) (sent db) q"
  obtains db' where "executeSql q sl db = (Inr (), db')" "sent db' = sent db @ [q]"
    "same_members db db'" "set (logged db) \<subseteq> set (logged db')"
proof -
  obtain r db' where x: "executeSql q sl db = (r, db')" by (cases "executeSql q sl db")
  from executeSql_effect [OF x] assms that x show ?thesis by simp
qed

lemma executeSql_refused:
  assumes "\<not> accepted (conn db) (sent db) q"
  obtains m db' where "executeSql q sl db = (Inl (DbException m), db')" "sent db' = sent db @ [q]"
    "same_members db db'" "set (logged db) \<subseteq> set (logged db')"
proof -
  obtain r db' where x: "executeSql q sl db = (r, db')" by (cases "executeSql q sl db")
  from executeSql_effect [OF x] assms have "r \<noteq> Inr ()" "r \<noteq> Inl Undefined_behaviour" by simp_all
  then obtain m where "r = Inl (DbException m)"
    by (cases r) (auto, metis failure.exhaust)
  with executeSql_effect [OF x] that x show ?thesis by simp
qed

lemma rollback_effect:
  assumes "rollback e db = (r, db')"
  shows "sent db' = sent db @ (if in_transaction db then [''rollback;''] else [])"
    and "conn db' = conn db \<and> do_commit db' = do_commit db \<and> failed_count db' = failed_count db"
    and "r = Inr () \<longleftrightarrow> (\<not> in_transaction db \<or> accepted (conn db) (sent db) ''rollback;'')"
    and "in_transaction db' \<longleftrightarrow> r \<noteq> Inr ()"
proof -
  obtain r1 db1 where x: "executeSql ''rollback;'' (silent_default e) db = (r1, db1)"
    by (cases "executeSql ''rollback;'' (silent_default e) db")
  note fx = executeSql_effect [OF x]
  from assms x fx(1)
  show "sent db' = sent db @ (if in_transaction db then [''rollback;''] else [])"
    by (cases r1) (auto simp: rollback_def split: if_splits)
  from assms x fx(2)
  show "conn db' = conn db \<and> do_commit db' = do_commit db \<and> failed_count db' = failed_count db"
    by (cases r1) (auto simp: rollback_def same_members_def split: if_splits)
  from assms x fx(4)
  show "r = Inr () \<longleftrightarrow> (\<not> in_transaction db \<or> accepted (conn db) (sent db) ''rollback;'')"
    by (cases r1) (auto simp: rollback_def split: if_splits)
  from assms x fx(2)
  show "in_transaction db' \<longleftrightarrow> r \<noteq> Inr ()"
    by (cases r1) (auto simp: rollback_def same_members_def split: if_splits)
qed

lemma commit_effect:
  assumes "commit e db = (r, db')"
  shows "sent db' = sent db @ (if in_transaction db
            then [if do_commit db then ''commit;'' else ''rollback;''] else [])"
    and "conn db' = conn db \<and> do_commit db' = do_commit db \<and> failed_count db' = failed_count db"
    and "r = Inr () \<longleftrightarrow> (\<not> in_transaction db \<or>
            accepted (conn db) (sent db) (if do_commit db then ''commit;'' else ''rollback;''))"
    and "in_transaction db' \<longleftrightarrow> r \<noteq> Inr ()"
proof -
  obtain r1 db1 where x: "executeSql ''commit;'' (silent_default e) db = (r1, db1)"
    by (cases "executeSql ''commit;'' (silent_default e) db")
  note fx = executeSql_effect [OF x]
  have rb: "\<not> do_commit db \<Longrightarrow> rollback e db = (r, db')"
    using assms by (simp add: commit_def)
  from assms x fx(1) rollback_effect(1) [OF rb]
  show "sent db' = sent db @ (if in_transaction db
            then [if do_commit db then ''commit;'' else ''rollback;''] else [])"
    by (cases r1; cases "do_commit db") (auto simp: commit_def split: if_splits)
  from assms x fx(2) rollback_effect(2) [OF rb]
  show "conn db' = conn db \<and> do_commit db' = do_commit db \<and> failed_count db' = failed_count db"
    by (cases r1; cases "do_commit db") (auto simp: commit_def same_members_def split: if_splits)
  from assms x fx(4) rollback_effect(3) [OF rb]
  show "r = Inr () \<longleftrightarrow> (\<not> in_transaction db \<or>
            accepted (conn db) (sent db) (if do_commit db then ''commit;'' else ''rollback;''))"
    by (cases r1; cases "do_commit db") (auto simp: commit_def split: if_splits)
  from assms x fx(2) rollback_effect(4) [OF rb]
  show "in_transaction db' \<longleftrightarrow> r \<noteq> Inr ()"
    by (cases r1; cases "do_commit db") (auto simp: commit_def same_members_def split: if_splits)
qed

lemma finish_effect:
  assumes "finish e db = (r, db')"
  shows "sent db' = sent db @ (if in_transaction db then [closing_statement db] else [])"
    and "r = Inr () \<longleftrightarrow>
           (\<not> in_transaction db \<or> accepted (conn db) (sent db) (closing_statement db))"
    and "in_transaction db' \<longleftrightarrow> r \<noteq> Inr ()"
    and "failed_count db' = (if r = Inr () then 0 else failed_count db)"
    and "do_commit db' = do_commit db \<and> conn db' = conn db"
proof -
  define step where "step = (if failed_count db > 0 then rollback e db else commit e db)"
  obtain r1 db1 where x: "step = (r1, db1)" by (cases step)
  have rb: "0 < failed_count db \<Longrightarrow> rollback e db = (r1, db1)"
    and cm: "\<not> 0 < failed_count db \<Longrightarrow> commit e db = (r1, db1)"
    using x by (simp_all add: step_def)
  have f: "finish e db = (case (r1, db1) of (Inl x, db1) \<Rightarrow> (Inl x, db1)
              | (Inr u, db1) \<Rightarrow> (Inr (), db1\<lparr>failed_count := 0\<rparr>))"
    using x by (simp add: finish_def step_def)
  have r: "r = r1" and d: "db' = (if r1 = Inr () then db1\<lparr>failed_count := 0\<rparr> else db1)"
    using f assms by (cases r1; auto)+
  have s1: "sent db1 = sent db @ (if in_transaction db then [closing_statement db] else [])"
    using rollback_effect(1) [OF rb] commit_effect(1) [OF cm]
    by (cases "0 < failed_count db") (auto simp: closing_statement_def)
  have s2: "conn db1 = conn db \<and> do_commit db1 = do_commit db \<and> failed_count db1 = failed_count db"
    using rollback_effect(2) [OF rb] commit_effect(2) [OF cm]
    by (cases "0 < failed_count db") auto
  have s3: "r1 = Inr () \<longleftrightarrow>
           (\<not> in_transaction db \<or> accepted (conn db) (sent db) (closing_statement db))"
    using rollback_effect(3) [OF rb] commit_effect(3) [OF cm]
    by (cases "0 < failed_count db") (auto simp: closing_statement_def)
  have s4: "in_transaction db1 \<longleftrightarrow> r1 \<noteq> Inr ()"
    using rollback_effect(4) [OF rb] commit_effect(4) [OF cm]
    by (cases "0 < failed_count db") auto
  from s1 d show "sent db' = sent db @ (if in_transaction db then [closing_statement db] else [])"
    by simp
  from s3 r show "r = Inr () \<longleftrightarrow>
           (\<not> in_transaction db \<or> accepted (conn db) (sent db) (closing_statement db))"
    by simp
  from s4 r d show "in_transaction db' \<longleftrightarrow> r \<noteq> Inr ()" by simp
  from s2 r d show "failed_count db' = (if r = Inr () then 0 else failed_count db)" by simp
  from s2 d show "do_commit db' = do_commit db \<and> conn db' = conn db" by simp
qed


lemma Db_begin_effect:
  assumes "Db_begin e db = (r, db')"
  shows "sent db' = sent db @ (if in_transaction db then [] else [''begin;''])"
    and "conn db' = conn db \<and> do_commit db' = do_commit db \<and> failed_count db' = failed_count db"
    and "r = Inr () \<longleftrightarrow> (in_transaction db \<or> accepted (conn db) (sent db) ''begin;'')"
    and "r = Inr () \<Longrightarrow> in_transaction db'"
    and "set (logged db) \<subseteq> set (logged db')"
    and "r \<noteq> Inl Undefined_behaviour"
proof -
  obtain r1 db1 where x: "executeSql ''begin;'' (silent_default e) db = (r1, db1)"
    by (cases "executeSql ''begin;'' (silent_default e) db")
  note fx = executeSql_effect [OF x]
  from assms x fx(1)
  show "sent db' = sent db @ (if in_transaction db then [] else [''begin;''])"
    by (cases r1) (auto simp: Db_begin_def split: if_splits)
  from assms x fx(2)
  show "conn db' = conn db \<and> do_commit db' = do_commit db \<and> failed_count db' = failed_count db"
    by (cases r1) (auto simp: Db_begin_def same_members_def split: if_splits)
  from assms x fx(4)
  show "r = Inr () \<longleftrightarrow> (in_transaction db \<or> accepted (conn db) (sent db) ''begin;'')"
    by (cases r1) (auto simp: Db_begin_def split: if_splits)
  from assms x
  show "in_transaction db'" if "r = Inr ()"
    using that by (cases r1) (auto simp: Db_begin_def split: if_splits)
  from assms x fx(3)
  show "set (logged db) \<subseteq> set (logged db')"
    by (cases r1) (auto simp: Db_begin_def split: if_splits)
  from assms x fx(5)
  show "r \<noteq> Inl Undefined_behaviour"
    by (cases r1) (auto simp: Db_begin_def split: if_splits)
qed

lemma runChunk_at_result:
  assumes "reaches_statement e chunk db res"
  obtains db4 t where
    "runChunk e chunk db =
       (case runChunk_result e res (sql chunk)
               (chunk\<lparr>diagnostics := (diagnostics chunk)\<lparr>status := Ok, runtime := t\<rparr>\<rparr>) db4 of
          (Inl x, chunk3, db5) \<Rightarrow> (Inl x, chunk3, db5)
        | (Inr u, chunk3, db5) \<Rightarrow> runChunk_savepoint e chunk3 db5)"
    and "sent db4 = sent db @ (if in_transaction db then [] else [''begin;''])
                      @ [''savepoint chunk;'', sql chunk]"
    and "conn db4 = conn db" and "do_commit db4 = do_commit db"
    and "failed_count db4 = failed_count db" and "in_transaction db4"
    and "set (logged db) \<subseteq> set (logged db4)"
proof -
  let ?h = "sent db @ (if in_transaction db then [] else [''begin;''])"
  from assms have st: "PQstatus db = CONNECTION_OK"
    and bg: "in_transaction db \<or> accepted (conn db) (sent db) ''begin;''"
    and c1: "readable (clock_after e ?h)"
    and sp: "accepted (conn db) ?h ''savepoint chunk;''"
    and rp: "case conn db of None \<Rightarrow> False
             | Some c \<Rightarrow> reply_after c (?h @ [''savepoint chunk;'']) (sql chunk) = Some res"
    and c2: "readable (clock_after e (?h @ [''savepoint chunk;'', sql chunk]))"
    by (simp_all add: reaches_statement_def Let_def)
  define db1 where "db1 = log_debug ''got a working db connection'' db"
  have ic: "isConnected db = (True, db1)"
    using st by (simp add: isConnected_effect db1_def)
  obtain r2 db2 where b: "Db_begin e db1 = (r2, db2)" by (cases "Db_begin e db1")
  note fb = Db_begin_effect [OF b]
  from fb(3) bg have r2: "r2 = Inr ()" by (simp add: db1_def)
  from fb(1) have s2: "sent db2 = ?h" by (simp add: db1_def)
  from fb(2) have m2: "conn db2 = conn db" "do_commit db2 = do_commit db"
    "failed_count db2 = failed_count db" by (simp_all add: db1_def)
  from fb(4) r2 have i2: "in_transaction db2" by simp
  from fb(5) have l2: "set (logged db) \<subseteq> set (logged db2)" by (auto simp: db1_def)
  obtain start_time where t1: "gettimeofday e db2 = Inr start_time"
    using c1 s2 by (cases "clock_after e ?h") (simp_all add: gettimeofday_def readable_def)
  from sp s2 m2 have "accepted (conn db2) (sent db2) ''savepoint chunk;''" by simp
  then obtain db3 where e3: "executeSql ''savepoint chunk;'' (silent_default e) db2 = (Inr (), db3)"
    and s3: "sent db3 = sent db2 @ [''savepoint chunk;'']" and m3: "same_members db2 db3"
    and l3: "set (logged db2) \<subseteq> set (logged db3)"
    by (rule executeSql_accepted)
  define db4 where "db4 = db3\<lparr>sent := sent db3 @ [sql chunk]\<rparr>"
  from rp s2 s3 m2 m3 have p4: "PQexec (sql chunk) db3 = (Some res, db4)"
    by (auto simp: PQexec_def db4_def same_members_def split: option.splits)
  have s4: "sent db4 = ?h @ [''savepoint chunk;'', sql chunk]"
    using s2 s3 by (simp add: db4_def)
  obtain end_time where t2: "gettimeofday e db4 = Inr end_time"
    using c2 s4 by (cases "clock_after e (?h @ [''savepoint chunk;'', sql chunk])")
      (simp_all add: gettimeofday_def readable_def)
  show ?thesis
  proof (rule that [of "fst (snd (timeval_subtract end_time start_time))" db4])
    show "runChunk e chunk db =
       (case runChunk_result e res (sql chunk)
               (chunk\<lparr>diagnostics := (diagnostics chunk)\<lparr>status := Ok,
                  runtime := fst (snd (timeval_subtract end_time start_time))\<rparr>\<rparr>) db4 of
          (Inl x, chunk3, db5) \<Rightarrow> (Inl x, chunk3, db5)
        | (Inr u, chunk3, db5) \<Rightarrow> runChunk_savepoint e chunk3 db5)"
      by (simp add: runChunk_def ic b r2 t1 e3 p4 t2 getSql_def Let_def)
    from s4 show "sent db4 = sent db @ (if in_transaction db then [] else [''begin;''])
                      @ [''savepoint chunk;'', sql chunk]" by simp
    from m2 m3 show "conn db4 = conn db" by (simp add: db4_def same_members_def)
    from m2 m3 show "do_commit db4 = do_commit db" by (simp add: db4_def same_members_def)
    from m2 m3 show "failed_count db4 = failed_count db" by (simp add: db4_def same_members_def)
    from i2 m3 show "in_transaction db4" by (simp add: db4_def same_members_def)
    from l2 l3 show "set (logged db) \<subseteq> set (logged db4)" by (auto simp: db4_def)
  qed
qed


lemma runChunk_messages_keeps [simp]:
  "status (runChunk_messages res d) = status d"
  "error_line (runChunk_messages res d) = error_line d"
  "runtime (runChunk_messages res d) = runtime d"
  by (simp_all add: runChunk_messages_def Let_def split: option.splits)

lemma runChunk_result_ok:
  "\<not> is_error res \<Longrightarrow> runChunk_result e res s chunk db = (Inr (), chunk, db)"
  by (simp add: runChunk_result_def)

lemma runChunk_result_in_text:
  assumes "is_error res" and "diag_statement_position res = Some p" and "atoi p = Some pos"
    and "0 \<le> pos" and "pos < int (length s)"
  shows "runChunk_result e res s chunk db =
     (Inr (),
      chunk\<lparr>diagnostics := runChunk_messages res ((diagnostics chunk)\<lparr>status := Fail,
         error_line := start_line chunk + count_list (take (nat pos) s) (CHR 0x0A)\<rparr>)\<rparr>,
      db)"
  using assms by (simp add: runChunk_result_def runChunk_error_line_def)

lemma runChunk_result_beyond:
  assumes "is_error res" and "diag_statement_position res = Some p" and "atoi p = Some pos"
    and "int (length s) \<le> pos"
  shows "runChunk_result e res s chunk db =
     (Inr (),
      chunk\<lparr>diagnostics := runChunk_messages res ((diagnostics chunk)\<lparr>status := Fail\<rparr>)\<rparr>,
      log_error ''PG_DIAG_STATEMENT_POSITION is beyond the length of sql string'' db)"
  using assms by (simp add: runChunk_result_def runChunk_error_line_def)

lemma runChunk_result_absent:
  assumes "is_error res" and "diag_statement_position res = None"
  shows "runChunk_result e res s chunk db =
     (Inr (),
      chunk\<lparr>diagnostics := runChunk_messages res ((diagnostics chunk)\<lparr>status := Fail,
         error_line := LINE_NUMBER_NOT_AVAILABLE e\<rparr>)\<rparr>,
      log_debug ''got an empty PG_DIAG_STATEMENT_POSITION'' db)"
  using assms by (simp add: runChunk_result_def runChunk_error_line_def)

lemma runChunk_result_defined:
  assumes "is_error res \<Longrightarrow> position_defined res"
  obtains chunk' db' where "runChunk_result e res s chunk db = (Inr (), chunk', db')"
    and "status (diagnostics chunk') = (if is_error res then Fail else status (diagnostics chunk))"
    and "sent db' = sent db" and "same_members db db'"
    and "set (logged db) \<subseteq> set (logged db')"
proof (cases "is_error res")
  case False
  show ?thesis
    by (rule that [OF runChunk_result_ok [OF False, of e s chunk db]])
       (simp_all add: False same_members_def)
next
  case err: True
  show ?thesis
  proof (cases "diag_statement_position res")
    case None
    show ?thesis
      by (rule that [OF runChunk_result_absent [OF err None, of e s chunk db]])
         (simp_all add: err same_members_def subset_iff)
  next
    case (Some p)
    with assms [OF err] obtain pos where a: "atoi p = Some pos" and n: "0 \<le> pos"
      by (auto simp: position_defined_def split: option.splits)
    show ?thesis
    proof (cases "pos < int (length s)")
      case True
      show ?thesis
        by (rule that [OF runChunk_result_in_text [OF err Some a n True, of e chunk db]])
           (simp_all add: err same_members_def)
    next
      case False
      then have b: "int (length s) \<le> pos" by simp
      show ?thesis
        by (rule that [OF runChunk_result_beyond [OF err Some a b, of e chunk db]])
           (simp_all add: err same_members_def subset_iff)
    qed
  qed
qed

lemma runChunk_savepoint_effect:
  assumes "runChunk_savepoint e chunk db = (r, chunk', db')"
  defines "q \<equiv> (if status (diagnostics chunk) \<noteq> Ok then ''rollback to savepoint chunk;''
                 else ''release savepoint chunk;'')"
  shows "chunk' = chunk" and "sent db' = sent db @ [q]"
    and "set (logged db) \<subseteq> set (logged db')"
    and "r \<noteq> Inl Undefined_behaviour"
    and "accepted (conn db) (sent db) q \<Longrightarrow> r = Inr (status (diagnostics chunk) = Ok)"
    and "accepted (conn db) (sent db) q \<Longrightarrow>
           failed_count db' = (if status (diagnostics chunk) \<noteq> Ok then failed_count db + 1
                               else failed_count db)"
    and "\<not> accepted (conn db) (sent db) q \<Longrightarrow> (\<exists>m. r = Inl (DbException m))"
    and "\<not> accepted (conn db) (sent db) q \<Longrightarrow> failed_count db' = failed_count db"
    and "conn db' = conn db \<and> do_commit db' = do_commit db
         \<and> in_transaction db' = in_transaction db"
proof -
  obtain r1 db1 where x: "executeSql q (silent_default e) db = (r1, db1)"
    by (cases "executeSql q (silent_default e) db")
  note fx = executeSql_effect [OF x]
  have rs: "runChunk_savepoint e chunk db =
      (case (r1, db1) of (Inl x, db1) \<Rightarrow> (Inl x, chunk, db1)
       | (Inr u, db1) \<Rightarrow> (Inr (status (diagnostics chunk) = Ok), chunk,
            if status (diagnostics chunk) \<noteq> Ok then db1\<lparr>failed_count := failed_count db1 + 1\<rparr>
            else db1))"
    using x by (cases "status (diagnostics chunk) = Ok") (simp_all add: runChunk_savepoint_def q_def)
  from rs assms(1) show "chunk' = chunk" by (cases r1) auto
  from rs assms(1) fx(1) show "sent db' = sent db @ [q]" by (cases r1) (auto split: if_splits)
  from rs assms(1) fx(3) show "set (logged db) \<subseteq> set (logged db')"
    by (cases r1) (auto split: if_splits)
  from rs assms(1) fx(5) show "r \<noteq> Inl Undefined_behaviour" by (cases r1) auto
  from rs assms(1) fx(4) show "r = Inr (status (diagnostics chunk) = Ok)"
    if "accepted (conn db) (sent db) q" using that by (cases r1) auto
  from rs assms(1) fx(2,4) show "failed_count db' =
      (if status (diagnostics chunk) \<noteq> Ok then failed_count db + 1 else failed_count db)"
    if "accepted (conn db) (sent db) q"
    using that by (cases r1) (auto simp: same_members_def split: if_splits)
  from rs assms(1) fx(4,5) show "\<exists>m. r = Inl (DbException m)"
    if "\<not> accepted (conn db) (sent db) q"
    using that by (cases r1) (auto, metis failure.exhaust)
  from rs assms(1) fx(2,4) show "failed_count db' = failed_count db"
    if "\<not> accepted (conn db) (sent db) q"
    using that by (cases r1) (auto simp: same_members_def)
  from rs assms(1) fx(2) show "conn db' = conn db \<and> do_commit db' = do_commit db
         \<and> in_transaction db' = in_transaction db"
    by (cases r1) (auto simp: same_members_def split: if_splits)
qed

lemma runChunk_returns:
  assumes "reaches_statement e chunk db res"
    and "is_error res \<Longrightarrow> position_defined res"
    and "accepted (conn db)
           (sent db @ (if in_transaction db then [] else [''begin;''])
              @ [''savepoint chunk;'', sql chunk])
           (savepoint_statement res)"
  shows "case runChunk e chunk db of (r, chunk', db') \<Rightarrow>
           r = Inr (\<not> is_error res)
           \<and> status (diagnostics chunk') = (if is_error res then Fail else Ok)
           \<and> sent db' = sent db @ (if in_transaction db then [] else [''begin;''])
                          @ [''savepoint chunk;'', sql chunk, savepoint_statement res]
           \<and> failed_count db' = (if is_error res then failed_count db + 1 else failed_count db)
           \<and> do_commit db' = do_commit db \<and> conn db' = conn db \<and> in_transaction db'"
proof -
  from assms(1) obtain db4 t where
    rc: "runChunk e chunk db =
       (case runChunk_result e res (sql chunk)
               (chunk\<lparr>diagnostics := (diagnostics chunk)\<lparr>status := Ok, runtime := t\<rparr>\<rparr>) db4 of
          (Inl x, chunk3, db5) \<Rightarrow> (Inl x, chunk3, db5)
        | (Inr u, chunk3, db5) \<Rightarrow> runChunk_savepoint e chunk3 db5)"
    and s4: "sent db4 = sent db @ (if in_transaction db then [] else [''begin;''])
                      @ [''savepoint chunk;'', sql chunk]"
    and m4: "conn db4 = conn db" "do_commit db4 = do_commit db"
      "failed_count db4 = failed_count db" "in_transaction db4"
    by (rule runChunk_at_result)
  let ?c2 = "chunk\<lparr>diagnostics := (diagnostics chunk)\<lparr>status := Ok, runtime := t\<rparr>\<rparr>"
  from assms(2) obtain chunk3 db5 where
    rr: "runChunk_result e res (sql chunk) ?c2 db4 = (Inr (), chunk3, db5)"
    and st: "status (diagnostics chunk3) = (if is_error res then Fail else status (diagnostics ?c2))"
    and s5: "sent db5 = sent db4" and m5: "same_members db4 db5"
    by (rule runChunk_result_defined)
  from st have st': "status (diagnostics chunk3) = (if is_error res then Fail else Ok)" by simp
  obtain r chunk' db' where sv: "runChunk_savepoint e chunk3 db5 = (r, chunk', db')"
    by (cases "runChunk_savepoint e chunk3 db5")
  have q: "(if status (diagnostics chunk3) \<noteq> Ok then ''rollback to savepoint chunk;''
            else ''release savepoint chunk;'') = savepoint_statement res"
    using st' by (simp add: savepoint_statement_def)
  from assms(3) s4 s5 m4 m5 q
  have acc: "accepted (conn db5) (sent db5)
     (if status (diagnostics chunk3) \<noteq> Ok then ''rollback to savepoint chunk;''
      else ''release savepoint chunk;'')"
    by (simp add: same_members_def)
  note fs = runChunk_savepoint_effect [OF sv]
  from fs(5) [OF acc] st' have r: "r = Inr (\<not> is_error res)" by simp
  from fs(1) st' have c: "status (diagnostics chunk') = (if is_error res then Fail else Ok)"
    by simp
  from fs(2) q s4 s5 have s: "sent db' = sent db @ (if in_transaction db then [] else [''begin;''])
                          @ [''savepoint chunk;'', sql chunk, savepoint_statement res]" by simp
  from fs(6) [OF acc] st' m4 m5
  have f: "failed_count db' = (if is_error res then failed_count db + 1 else failed_count db)"
    by (simp add: same_members_def)
  from fs(9) m4 m5
  have m: "do_commit db' = do_commit db" "conn db' = conn db" "in_transaction db'"
    by (simp_all add: same_members_def)
  from rc rr sv r c s f m show ?thesis by simp
qed

lemma runChunk_result_effect:
  assumes "runChunk_result e res s chunk db = (r, chunk', db')"
  shows "sent db' = sent db" and "same_members db db'"
    and "set (logged db) \<subseteq> set (logged db')"
    and "r = Inr () \<longleftrightarrow> (is_error res \<longrightarrow> position_defined res)"
  using assms
  by (auto simp: runChunk_result_def runChunk_error_line_def position_defined_def same_members_def
           split: if_splits option.splits)

lemma runChunk_cases:
  obtains (threw) x chunk' db' where "runChunk e chunk db = (Inl x, chunk', db')"
      and "do_commit db' = do_commit db" and "failed_count db' = failed_count db"
      and "conn db' = conn db"
    | (returned) res where "reaches_statement e chunk db res"
      and "is_error res \<longrightarrow> position_defined res"
      and "accepted (conn db)
             (sent db @ (if in_transaction db then [] else [''begin;''])
                @ [''savepoint chunk;'', sql chunk])
             (savepoint_statement res)"
proof -
  let ?h = "sent db @ (if in_transaction db then [] else [''begin;''])"
  define db1 where "db1 = log_debug (if PQstatus db = CONNECTION_OK
      then ''got a working db connection'' else ''no db connection'') db"
  have ic: "isConnected db = (PQstatus db = CONNECTION_OK, db1)"
    by (simp add: isConnected_effect db1_def)
  show ?thesis
  proof (cases "PQstatus db = CONNECTION_OK")
    case False
    then have "runChunk e chunk db = (Inl (DbException ''lost db connection''), chunk, db1)"
      by (simp add: runChunk_def ic)
    then show ?thesis by (rule threw) (simp_all add: db1_def)
  next
    case st: True
    obtain r2 db2 where b: "Db_begin e db1 = (r2, db2)" by (cases "Db_begin e db1")
    note fb = Db_begin_effect [OF b]
    from fb(1) have s2: "sent db2 = ?h" by (simp add: db1_def)
    from fb(2) have m2: "conn db2 = conn db" "do_commit db2 = do_commit db"
      "failed_count db2 = failed_count db" by (simp_all add: db1_def)
    show ?thesis
    proof (cases r2)
      case (Inl x)
      with st b have "runChunk e chunk db = (Inl x, chunk, db2)"
        by (simp add: runChunk_def ic)
      then show ?thesis by (rule threw) (simp_all add: m2)
    next
      case r2: (Inr u2)
      from fb(3) r2 have bg: "in_transaction db \<or> accepted (conn db) (sent db) ''begin;''"
        by (simp add: db1_def)
      let ?c1 = "chunk\<lparr>diagnostics := (diagnostics chunk)\<lparr>status := Ok\<rparr>\<rparr>"
      show ?thesis
      proof (cases "gettimeofday e db2")
        case (Inl errno)
        with st b r2 have "runChunk e chunk db = (Inl (DbException errno), ?c1, db2)"
          by (simp add: runChunk_def ic Let_def)
        then show ?thesis by (rule threw) (simp_all add: m2)
      next
        case t1: (Inr start_time)
        then have c1: "readable (clock_after e ?h)"
          using s2 by (simp add: gettimeofday_def readable_def)
        obtain r3 db3 where e3: "executeSql ''savepoint chunk;'' (silent_default e) db2 = (r3, db3)"
          by (cases "executeSql ''savepoint chunk;'' (silent_default e) db2")
        note f3 = executeSql_effect [OF e3]
        from f3(1) s2 have s3: "sent db3 = ?h @ [''savepoint chunk;'']" by simp
        from f3(2) m2 have m3: "conn db3 = conn db" "do_commit db3 = do_commit db"
          "failed_count db3 = failed_count db" by (simp_all add: same_members_def)
        show ?thesis
        proof (cases r3)
          case (Inl x)
          with st b r2 t1 e3 have "runChunk e chunk db = (Inl x, ?c1, db3)"
            by (simp add: runChunk_def ic Let_def)
          then show ?thesis by (rule threw) (simp_all add: m3)
        next
          case r3: (Inr u3)
          with f3(4) s2 m2 have sp: "accepted (conn db) ?h ''savepoint chunk;''" by simp
          define db4 where "db4 = db3\<lparr>sent := sent db3 @ [sql chunk]\<rparr>"
          define pgres where "pgres = (case conn db3 of None \<Rightarrow> None
                                       | Some c \<Rightarrow> reply_after c (sent db3) (sql chunk))"
          have p4: "PQexec (sql chunk) db3 = (pgres, db4)"
            by (simp add: PQexec_def pgres_def db4_def)
          have s4: "sent db4 = ?h @ [''savepoint chunk;'', sql chunk]"
            using s3 by (simp add: db4_def)
          have m4: "conn db4 = conn db" "do_commit db4 = do_commit db"
            "failed_count db4 = failed_count db" using m3 by (simp_all add: db4_def)
          show ?thesis
          proof (cases pgres)
            case None
            with st b r2 t1 e3 r3 p4
            have "runChunk e chunk db =
                    (Inl (DbException ''PQExec failed''), ?c1, log_error ''PQExec failed'' db4)"
              by (simp add: runChunk_def ic Let_def getSql_def)
            then show ?thesis by (rule threw) (simp_all add: m4)
          next
            case res: (Some res)
            then have rp: "case conn db of None \<Rightarrow> False
                | Some c \<Rightarrow> reply_after c (?h @ [''savepoint chunk;'']) (sql chunk) = Some res"
              using m3 s3 by (auto simp: pgres_def split: option.splits)
            show ?thesis
            proof (cases "gettimeofday e db4")
              case (Inl errno)
              with st b r2 t1 e3 r3 p4 res
              have "runChunk e chunk db = (Inl (DbException errno), ?c1, db4)"
                by (simp add: runChunk_def ic Let_def getSql_def)
              then show ?thesis by (rule threw) (simp_all add: m4)
            next
              case t2: (Inr end_time)
              then have c2: "readable (clock_after e (?h @ [''savepoint chunk;'', sql chunk]))"
                using s4 by (simp add: gettimeofday_def readable_def)
              from st bg c1 sp rp c2 have reach: "reaches_statement e chunk db res"
                by (simp add: reaches_statement_def Let_def)
              let ?c2 = "?c1\<lparr>diagnostics := (diagnostics ?c1)\<lparr>runtime :=
                     fst (snd (timeval_subtract end_time start_time))\<rparr>\<rparr>"
              obtain rr chunk3 db5 where
                rr: "runChunk_result e res (sql chunk) ?c2 db4 = (rr, chunk3, db5)"
                by (cases "runChunk_result e res (sql chunk) ?c2 db4")
              note f5 = runChunk_result_effect [OF rr]
              from f5(1) s4 have s5: "sent db5 = ?h @ [''savepoint chunk;'', sql chunk]" by simp
              from f5(2) m4 have m5: "conn db5 = conn db" "do_commit db5 = do_commit db"
                "failed_count db5 = failed_count db" by (simp_all add: same_members_def)
              have rc: "runChunk e chunk db =
                 (case (rr, chunk3, db5) of (Inl x, chunk3, db5) \<Rightarrow> (Inl x, chunk3, db5)
                  | (Inr u, chunk3, db5) \<Rightarrow> runChunk_savepoint e chunk3 db5)"
                using st b r2 t1 e3 r3 p4 res t2 rr
                by (simp add: runChunk_def ic Let_def getSql_def)
              show ?thesis
              proof (cases rr)
                case (Inl x)
                with rc have "runChunk e chunk db = (Inl x, chunk3, db5)" by simp
                then show ?thesis by (rule threw) (simp_all add: m5)
              next
                case rr5: (Inr u5)
                with f5(4) have pd: "is_error res \<longrightarrow> position_defined res" by simp
                obtain chunk4 db6 where
                  rd: "runChunk_result e res (sql chunk) ?c2 db4 = (Inr (), chunk4, db6)"
                  and st4: "status (diagnostics chunk4) =
                             (if is_error res then Fail else status (diagnostics ?c2))"
                  using rr rr5 f5
                  by (auto simp: runChunk_result_def runChunk_error_line_def
                           split: if_splits option.splits)
                from rd rr have c34: "chunk3 = chunk4" by simp
                with st4 have st3: "status (diagnostics chunk3) = (if is_error res then Fail else Ok)"
                  by simp
                obtain r chunk' db' where
                  sv: "runChunk_savepoint e chunk3 db5 = (r, chunk', db')"
                  by (cases "runChunk_savepoint e chunk3 db5")
                note fs = runChunk_savepoint_effect [OF sv]
                have q: "(if status (diagnostics chunk3) \<noteq> Ok then ''rollback to savepoint chunk;''
                          else ''release savepoint chunk;'') = savepoint_statement res"
                  using st3 by (simp add: savepoint_statement_def)
                from rc rr5 sv have rc': "runChunk e chunk db = (r, chunk', db')" by simp
                show ?thesis
                proof (cases "accepted (conn db)
                                (?h @ [''savepoint chunk;'', sql chunk]) (savepoint_statement res)")
                  case True
                  then have "accepted (conn db)
                     (sent db @ (if in_transaction db then [] else [''begin;''])
                        @ [''savepoint chunk;'', sql chunk]) (savepoint_statement res)" by simp
                  with reach pd show ?thesis by (rule returned)
                next
                  case False
                  with q s5 m5 have na: "\<not> accepted (conn db5) (sent db5)
                     (if status (diagnostics chunk3) \<noteq> Ok then ''rollback to savepoint chunk;''
                      else ''release savepoint chunk;'')" by simp
                  from fs(7) [OF na] obtain m where "r = Inl (DbException m)" ..
                  with rc' have "runChunk e chunk db = (Inl (DbException m), chunk', db')" by simp
                  then show ?thesis
                  proof (rule threw)
                    from fs(8) [OF na] m5 show "failed_count db' = failed_count db" by simp
                    from fs(9) m5 show "do_commit db' = do_commit db" by simp
                    from fs(9) m5 show "conn db' = conn db" by simp
                  qed
                qed
              qed
            qed
          qed
        qed
      qed
    qed
  qed
qed

lemma second_line:
  assumes "10 \<le> pos" and "pos < 19"
  shows "count_list (take (nat pos) ''select 1;\<newline>selct 2;\<newline>'') (CHR 0x0A) = 1"
proof -
  from assms have "nat pos \<in> {10, 11, 12, 13, 14, 15, 16, 17, 18}" by auto
  then show ?thesis by (elim insertE emptyE) simp_all
qed

lemma runChunk_keeps_chunk:
  assumes "reaches_statement e chunk db res"
  obtains db4 t where
    "\<forall>chunk3 db5. runChunk_result e res (sql chunk)
        (chunk\<lparr>diagnostics := (diagnostics chunk)\<lparr>status := Ok, runtime := t\<rparr>\<rparr>) db4
          = (Inr (), chunk3, db5)
       \<longrightarrow> fst (snd (runChunk e chunk db)) = chunk3
           \<and> set (logged db5) \<subseteq> set (logged (snd (snd (runChunk e chunk db))))
           \<and> fst (runChunk e chunk db) \<noteq> Inl Undefined_behaviour"
proof -
  from assms obtain db4 t where
    rc: "runChunk e chunk db =
       (case runChunk_result e res (sql chunk)
               (chunk\<lparr>diagnostics := (diagnostics chunk)\<lparr>status := Ok, runtime := t\<rparr>\<rparr>) db4 of
          (Inl x, chunk3, db5) \<Rightarrow> (Inl x, chunk3, db5)
        | (Inr u, chunk3, db5) \<Rightarrow> runChunk_savepoint e chunk3 db5)"
    by (rule runChunk_at_result)
  show ?thesis
  proof (rule that [of t db4], intro allI impI)
    fix chunk3 db5
    assume rr: "runChunk_result e res (sql chunk)
        (chunk\<lparr>diagnostics := (diagnostics chunk)\<lparr>status := Ok, runtime := t\<rparr>\<rparr>) db4
          = (Inr (), chunk3, db5)"
    obtain r chunk' db' where sv: "runChunk_savepoint e chunk3 db5 = (r, chunk', db')"
      by (cases "runChunk_savepoint e chunk3 db5")
    note fs = runChunk_savepoint_effect [OF sv]
    from rc rr sv have "runChunk e chunk db = (r, chunk', db')" by simp
    with fs(1,3,4)
    show "fst (snd (runChunk e chunk db)) = chunk3
           \<and> set (logged db5) \<subseteq> set (logged (snd (snd (runChunk e chunk db))))
           \<and> fst (runChunk e chunk db) \<noteq> Inl Undefined_behaviour" by simp
  qed
qed




lemma cancel_members:
  "same_members db (snd (snd (cancel errmsg db))) \<and> sent (snd (snd (cancel errmsg db))) = sent db"
  by (simp add: cancel_def isConnected_effect PQcancel_def same_members_def Let_def
           split: option.splits prod.splits)

lemma clean_run_invariant: "clean_run e db \<Longrightarrow> \<not> do_commit db \<and> failed_count db = 0"
proof (induction rule: clean_run.induct)
  case constructed
  show ?case by (simp add: Db_new_def)
next
  case (connected db c)
  then show ?case by (simp add: connect_def isConnected_effect)
next
  case (cancelled db errmsg)
  with cancel_members [of db errmsg] show ?case by (simp add: same_members_def)
next
  case (finished db)
  obtain r db' where x: "finish e db = (r, db')" by (cases "finish e db")
  from finish_effect(4,5) [OF x] finished.IH x show ?case by simp
next
  case (chunk_succeeded db chunk chunk' db')
  show ?case
  proof (cases rule: runChunk_cases [of e chunk db])
    case (threw x chunk'' db'')
    with chunk_succeeded.hyps(2) show ?thesis by simp
  next
    case (returned res)
    from runChunk_returns [OF returned(1) _ returned(3)] returned(2) chunk_succeeded.hyps(2)
    have "\<not> is_error res" "failed_count db' = (if is_error res then failed_count db + 1 else failed_count db)"
      "do_commit db' = do_commit db" by simp_all
    with chunk_succeeded.IH show ?thesis by simp
  qed
qed


subsection \<open>The claims about the engine\<close>

text \<open>
  C1. What \<open>finish\<close> does with an open outer transaction: with a failed chunk it sends
  \<open>rollback;\<close>, whatever \<open>do_commit\<close> says; with no failed chunk it sends \<open>commit;\<close> if
  \<open>do_commit\<close> is set and \<open>rollback;\<close> if it is not. It sends nothing else, and it returns
  exactly when the server accepts that statement. Without an open transaction it sends
  nothing and returns. Whenever it returns, \<open>failed_count\<close> is 0 and no transaction is open.
\<close>

theorem finish_decision:
  "case finish e db of (r, db') \<Rightarrow>
     (in_transaction db \<longrightarrow>
        (0 < failed_count db \<longrightarrow> sent db' = sent db @ [''rollback;''])
        \<and> (failed_count db = 0 \<and> do_commit db \<longrightarrow> sent db' = sent db @ [''commit;''])
        \<and> (failed_count db = 0 \<and> \<not> do_commit db \<longrightarrow> sent db' = sent db @ [''rollback;''])
        \<and> (r = Inr () \<longleftrightarrow> accepted (conn db) (sent db) (last (sent db'))))
     \<and> (\<not> in_transaction db \<longrightarrow> sent db' = sent db \<and> r = Inr ())
     \<and> (r = Inr () \<longrightarrow> failed_count db' = 0 \<and> \<not> in_transaction db')
     \<and> do_commit db' = do_commit db"
proof -
  obtain r db' where x: "finish e db = (r, db')" by (cases "finish e db")
  note fx = finish_effect [OF x]
  have "sent db' = sent db @ [''rollback;'']" if "in_transaction db" "0 < failed_count db"
    using fx(1) that by (simp add: closing_statement_def)
  moreover have "sent db' = sent db @ [''commit;'']"
    if "in_transaction db" "failed_count db = 0" "do_commit db"
    using fx(1) that by (simp add: closing_statement_def)
  moreover have "sent db' = sent db @ [''rollback;'']"
    if "in_transaction db" "failed_count db = 0" "\<not> do_commit db"
    using fx(1) that by (simp add: closing_statement_def)
  moreover have "r = Inr () \<longleftrightarrow> accepted (conn db) (sent db) (last (sent db'))"
    if "in_transaction db"
    using fx(1,2) that by simp
  moreover have "sent db' = sent db \<and> r = Inr ()" if "\<not> in_transaction db"
    using fx(1,2) that by simp
  moreover have "failed_count db' = 0 \<and> \<not> in_transaction db'" if "r = Inr ()"
    using fx(3,4) that by simp
  ultimately show ?thesis using x fx(5) by simp
qed

theorem finish_decision_witness:
  "finish example_env (Db_new\<lparr>conn := Some (example_server [] None), in_transaction := True,
                              failed_count := 2, do_commit := True\<rparr>)
     = (Inr (), Db_new\<lparr>conn := Some (example_server [] None), do_commit := True,
                       sent := [''rollback;''],
                       logged := [(LogDebug, ''got a working db connection''),
                                  (LogDebug, ''executing sql: rollback;'')]\<rparr>)
   \<and> finish example_env (Db_new\<lparr>conn := Some (example_server [] None), in_transaction := True,
                              do_commit := True\<rparr>)
     = (Inr (), Db_new\<lparr>conn := Some (example_server [] None), do_commit := True,
                       sent := [''commit;''],
                       logged := [(LogDebug, ''got a working db connection''),
                                  (LogDebug, ''executing sql: commit;'')]\<rparr>)
   \<and> finish example_env (Db_new\<lparr>conn := Some (example_server [] None), in_transaction := True\<rparr>)
     = (Inr (), Db_new\<lparr>conn := Some (example_server [] None),
                       sent := [''rollback;''],
                       logged := [(LogDebug, ''got a working db connection''),
                                  (LogDebug, ''executing sql: rollback;'')]\<rparr>)"
  using finish_decision [where e = example_env and db = "Db_new\<lparr>conn := Some (example_server [] None),
          in_transaction := True, failed_count := 2, do_commit := True\<rparr>"]
    finish_decision [where e = example_env and db = "Db_new\<lparr>conn := Some (example_server [] None),
          in_transaction := True, do_commit := True\<rparr>"]
    finish_decision [where e = example_env and db = "Db_new\<lparr>conn := Some (example_server [] None),
          in_transaction := True\<rparr>"]
  by (simp add: ex_defs run_defs)

text \<open>
  C2, as the code has it. Let \<open>runChunk\<close> get as far as the chunk's statement, let the
  position the database reports with an error be a number that is not negative, and let
  the server accept the statement that ends the savepoint. Then \<open>runChunk\<close> returns. If the
  database rejected the chunk's statement, it returns false, the status is \<open>Fail\<close>,
  \<open>rollback to savepoint chunk;\<close> is the last statement sent and \<open>failed_count\<close> has grown by
  one. If not, it returns true, the status is \<open>Ok\<close>, \<open>release savepoint chunk;\<close> is the last
  statement sent and \<open>failed_count\<close> is as before.
\<close>

theorem runChunk_outcome:
  assumes "reaches_statement e chunk db res"
    and "is_error res \<Longrightarrow> position_defined res"
    and "accepted (conn db)
           (sent db @ (if in_transaction db then [] else [''begin;''])
              @ [''savepoint chunk;'', sql chunk])
           (savepoint_statement res)"
  shows "case runChunk e chunk db of (r, chunk', db') \<Rightarrow>
           r = Inr (\<not> is_error res)
           \<and> status (diagnostics chunk') = (if is_error res then Fail else Ok)
           \<and> sent db' = sent db @ (if in_transaction db then [] else [''begin;''])
                          @ [''savepoint chunk;'', sql chunk, savepoint_statement res]
           \<and> failed_count db' = (if is_error res then failed_count db + 1 else failed_count db)"
proof -
  obtain r chunk' db' where x: "runChunk e chunk db = (r, chunk', db')"
    by (cases "runChunk e chunk db") auto
  with runChunk_returns [OF assms] show ?thesis by simp
qed

theorem runChunk_outcome_witness:
  "reaches_statement example_env (new_chunk 10 11 ''select 1;\<newline>selct 2;\<newline>'' ''two'')
      (Db_new\<lparr>conn := Some (example_server ''select 1;\<newline>selct 2;\<newline>'' (Some ''11''))\<rparr>)
      (error_result (Some ''11''))
   \<and> is_error (error_result (Some ''11'')) \<and> position_defined (error_result (Some ''11''))
   \<and> accepted (Some (example_server ''select 1;\<newline>selct 2;\<newline>'' (Some ''11'')))
        [''begin;'', ''savepoint chunk;'', ''select 1;\<newline>selct 2;\<newline>'']
        ''rollback to savepoint chunk;''
   \<and> (case runChunk example_env (new_chunk 10 11 ''select 1;\<newline>selct 2;\<newline>'' ''two'')
          (Db_new\<lparr>conn := Some (example_server ''select 1;\<newline>selct 2;\<newline>'' (Some ''11''))\<rparr>)
       of (r, chunk', db') \<Rightarrow>
         r = Inr False \<and> status (diagnostics chunk') = Fail \<and> failed_count db' = 1
         \<and> sent db' = [''begin;'', ''savepoint chunk;'', ''select 1;\<newline>selct 2;\<newline>'',
                        ''rollback to savepoint chunk;''])
   \<and> reaches_statement example_env (new_chunk 1 1 ''select 1;'' ''one'')
        (Db_new\<lparr>conn := Some (example_server [] None)\<rparr>) ok_result
   \<and> \<not> is_error ok_result
   \<and> (case runChunk example_env (new_chunk 1 1 ''select 1;'' ''one'')
          (Db_new\<lparr>conn := Some (example_server [] None)\<rparr>)
       of (r, chunk', db') \<Rightarrow>
         r = Inr True \<and> status (diagnostics chunk') = Ok \<and> failed_count db' = 0
         \<and> sent db' = [''begin;'', ''savepoint chunk;'', ''select 1;'',
                        ''release savepoint chunk;''])"
  using runChunk_outcome [of example_env
     "new_chunk 10 11 ''select 1;\<newline>selct 2;\<newline>'' ''two''"
     "Db_new\<lparr>conn := Some (example_server ''select 1;\<newline>selct 2;\<newline>'' (Some ''11''))\<rparr>"
     "error_result (Some ''11'')"]
    runChunk_outcome [of example_env "new_chunk 1 1 ''select 1;'' ''one''"
     "Db_new\<lparr>conn := Some (example_server [] None)\<rparr>" ok_result]
  by (simp add: ex_defs run_defs)

text \<open>
  The claim C2 as it is written fails: the database rejects the chunk's statement with a
  fatal error and the connection is gone, so \<open>rollback to savepoint chunk;\<close> cannot be
  executed. \<open>runChunk\<close> throws, and \<open>failed_count\<close> is still 0.
\<close>

theorem runChunk_throws_after_rejection:
  "reply_after (lost_server ''selct 2;'') [''begin;'', ''savepoint chunk;''] ''selct 2;''
     = Some (error_result None)
   \<and> is_error (error_result None)
   \<and> fst (runChunk example_env (new_chunk 10 10 ''selct 2;'' ''two'')
            (Db_new\<lparr>conn := Some (lost_server ''selct 2;'')\<rparr>))
       = Inl (DbException ''PQExec failed'')
   \<and> failed_count (snd (snd (runChunk example_env (new_chunk 10 10 ''selct 2;'' ''two'')
            (Db_new\<lparr>conn := Some (lost_server ''selct 2;'')\<rparr>)))) = 0
   \<and> sent (snd (snd (runChunk example_env (new_chunk 10 10 ''selct 2;'' ''two'')
            (Db_new\<lparr>conn := Some (lost_server ''selct 2;'')\<rparr>))))
       = [''begin;'', ''savepoint chunk;'', ''selct 2;'', ''rollback to savepoint chunk;'']"
  by (simp add: ex_defs run_defs)

text \<open>
  C4. When the database rejects the chunk's statement and reports a position inside the
  text, \<open>error_line\<close> becomes the chunk's first line plus the number of newline characters
  among the first \<open>pos\<close> characters of the text. For a chunk that starts at line 10 with
  the text of the example, every position in the second line gives line 11.
\<close>

theorem runChunk_error_line_in_text:
  assumes "reaches_statement e chunk db res" and "is_error res"
    and "diag_statement_position res = Some p" and "atoi p = Some pos"
    and "0 \<le> pos" and "pos < int (length (sql chunk))"
  shows "error_line (diagnostics (fst (snd (runChunk e chunk db))))
           = start_line chunk + count_list (take (nat pos) (sql chunk)) (CHR 0x0A)
         \<and> (start_line chunk = 10 \<and> sql chunk = ''select 1;\<newline>selct 2;\<newline>'' \<and> 10 \<le> pos
              \<longrightarrow> error_line (diagnostics (fst (snd (runChunk e chunk db)))) = 11)"
proof -
  from assms(1) obtain db4 t where
    k: "\<forall>chunk3 db5. runChunk_result e res (sql chunk)
        (chunk\<lparr>diagnostics := (diagnostics chunk)\<lparr>status := Ok, runtime := t\<rparr>\<rparr>) db4
          = (Inr (), chunk3, db5)
       \<longrightarrow> fst (snd (runChunk e chunk db)) = chunk3
           \<and> set (logged db5) \<subseteq> set (logged (snd (snd (runChunk e chunk db))))
           \<and> fst (runChunk e chunk db) \<noteq> Inl Undefined_behaviour"
    by (rule runChunk_keeps_chunk)
  from k [rule_format, OF runChunk_result_in_text [OF assms(2-6)]]
  have l: "error_line (diagnostics (fst (snd (runChunk e chunk db))))
           = start_line chunk + count_list (take (nat pos) (sql chunk)) (CHR 0x0A)"
    by simp
  have "error_line (diagnostics (fst (snd (runChunk e chunk db)))) = 11"
    if "start_line chunk = 10" "sql chunk = ''select 1;\<newline>selct 2;\<newline>''" "10 \<le> pos"
  proof -
    from that(2) assms(6) have "pos < 19" by simp
    with that(3) have "count_list (take (nat pos) ''select 1;\<newline>selct 2;\<newline>'') (CHR 0x0A) = 1"
      by (rule second_line)
    with l that show ?thesis by simp
  qed
  with l show ?thesis by simp
qed

theorem runChunk_error_line_in_text_witness:
  "reaches_statement example_env (new_chunk 10 11 ''select 1;\<newline>selct 2;\<newline>'' ''two'')
      (Db_new\<lparr>conn := Some (example_server ''select 1;\<newline>selct 2;\<newline>'' (Some ''11''))\<rparr>)
      (error_result (Some ''11''))
   \<and> is_error (error_result (Some ''11''))
   \<and> diag_statement_position (error_result (Some ''11'')) = Some ''11''
   \<and> atoi ''11'' = Some 11
   \<and> (11::int) < int (length ''select 1;\<newline>selct 2;\<newline>'')
   \<and> error_line (diagnostics (fst (snd (runChunk example_env
        (new_chunk 10 11 ''select 1;\<newline>selct 2;\<newline>'' ''two'')
        (Db_new\<lparr>conn := Some (example_server ''select 1;\<newline>selct 2;\<newline>'' (Some ''11''))\<rparr>)))))
       = 11"
  using runChunk_error_line_in_text [of example_env
     "new_chunk 10 11 ''select 1;\<newline>selct 2;\<newline>'' ''two''"
     "Db_new\<lparr>conn := Some (example_server ''select 1;\<newline>selct 2;\<newline>'' (Some ''11''))\<rparr>"
     "error_result (Some ''11'')" "''11''" 11]
  by (simp add: ex_defs run_defs)

text \<open>
  C5. When the database rejects the chunk's statement and reports a position at or beyond
  the length of the text, \<open>error_line\<close> keeps the value it had, the anomaly is logged as an
  error, and \<open>runChunk\<close> does not run into undefined behaviour. When the database reports no
  position, \<open>error_line\<close> becomes \<open>LINE_NUMBER_NOT_AVAILABLE\<close>.
\<close>

theorem runChunk_error_line_not_available:
  assumes "reaches_statement e chunk db res" and "is_error res"
  shows "(diag_statement_position res = Some p \<and> atoi p = Some pos \<and> int (length (sql chunk)) \<le> pos
            \<longrightarrow> error_line (diagnostics (fst (snd (runChunk e chunk db))))
                  = error_line (diagnostics chunk)
                \<and> (LogError, ''PG_DIAG_STATEMENT_POSITION is beyond the length of sql string'')
                    \<in> set (logged (snd (snd (runChunk e chunk db))))
                \<and> fst (runChunk e chunk db) \<noteq> Inl Undefined_behaviour)
         \<and> (diag_statement_position res = None
            \<longrightarrow> error_line (diagnostics (fst (snd (runChunk e chunk db))))
                  = LINE_NUMBER_NOT_AVAILABLE e
                \<and> fst (runChunk e chunk db) \<noteq> Inl Undefined_behaviour)"
proof -
  from assms(1) obtain db4 t where
    k: "\<forall>chunk3 db5. runChunk_result e res (sql chunk)
        (chunk\<lparr>diagnostics := (diagnostics chunk)\<lparr>status := Ok, runtime := t\<rparr>\<rparr>) db4
          = (Inr (), chunk3, db5)
       \<longrightarrow> fst (snd (runChunk e chunk db)) = chunk3
           \<and> set (logged db5) \<subseteq> set (logged (snd (snd (runChunk e chunk db))))
           \<and> fst (runChunk e chunk db) \<noteq> Inl Undefined_behaviour"
    by (rule runChunk_keeps_chunk)
  have "error_line (diagnostics (fst (snd (runChunk e chunk db)))) = error_line (diagnostics chunk)
        \<and> (LogError, ''PG_DIAG_STATEMENT_POSITION is beyond the length of sql string'')
             \<in> set (logged (snd (snd (runChunk e chunk db))))
        \<and> fst (runChunk e chunk db) \<noteq> Inl Undefined_behaviour"
    if "diag_statement_position res = Some p" "atoi p = Some pos" "int (length (sql chunk)) \<le> pos"
    using k [rule_format, OF runChunk_result_beyond [OF assms(2) that]] by auto
  moreover
  have "error_line (diagnostics (fst (snd (runChunk e chunk db)))) = LINE_NUMBER_NOT_AVAILABLE e
        \<and> fst (runChunk e chunk db) \<noteq> Inl Undefined_behaviour"
    if "diag_statement_position res = None"
    using k [rule_format, OF runChunk_result_absent [OF assms(2) that]] by simp
  ultimately show ?thesis by blast
qed

theorem runChunk_error_line_not_available_witness:
  "reaches_statement example_env (new_chunk 10 11 ''select 1;\<newline>selct 2;\<newline>'' ''two'')
      (Db_new\<lparr>conn := Some (example_server ''select 1;\<newline>selct 2;\<newline>'' (Some ''40''))\<rparr>)
      (error_result (Some ''40''))
   \<and> is_error (error_result (Some ''40''))
   \<and> atoi ''40'' = Some 40
   \<and> int (length ''select 1;\<newline>selct 2;\<newline>'') \<le> 40
   \<and> (case runChunk example_env (new_chunk 10 11 ''select 1;\<newline>selct 2;\<newline>'' ''two'')
        (Db_new\<lparr>conn := Some (example_server ''select 1;\<newline>selct 2;\<newline>'' (Some ''40''))\<rparr>)
       of (r, chunk', db') \<Rightarrow>
         r = Inr False \<and> error_line (diagnostics chunk') = 0
         \<and> (LogError, ''PG_DIAG_STATEMENT_POSITION is beyond the length of sql string'')
              \<in> set (logged db'))
   \<and> reaches_statement (example_env\<lparr>LINE_NUMBER_NOT_AVAILABLE := 7\<rparr>)
      (new_chunk 10 11 ''selct 2;'' ''two'')
      (Db_new\<lparr>conn := Some (example_server ''selct 2;'' None)\<rparr>) (error_result None)
   \<and> error_line (diagnostics (fst (snd (runChunk (example_env\<lparr>LINE_NUMBER_NOT_AVAILABLE := 7\<rparr>)
        (new_chunk 10 11 ''selct 2;'' ''two'')
        (Db_new\<lparr>conn := Some (example_server ''selct 2;'' None)\<rparr>))))) = 7"
  using runChunk_error_line_not_available [of example_env
     "new_chunk 10 11 ''select 1;\<newline>selct 2;\<newline>'' ''two''"
     "Db_new\<lparr>conn := Some (example_server ''select 1;\<newline>selct 2;\<newline>'' (Some ''40''))\<rparr>"
     "error_result (Some ''40'')" "''40''" 40]
    runChunk_error_line_not_available [of "example_env\<lparr>LINE_NUMBER_NOT_AVAILABLE := 7\<rparr>"
     "new_chunk 10 11 ''selct 2;'' ''two''"
     "Db_new\<lparr>conn := Some (example_server ''selct 2;'' None)\<rparr>"
     "error_result None" "[]" 0]
  by (simp add: ex_defs run_defs)

text \<open>
  C9. Without a usable connection \<open>cancel\<close> returns true, leaves \<open>errmsg\<close> and the members
  of the engine as they are and sends nothing. With a usable connection and a cancel
  handle whose request cannot be delivered, it returns false and \<open>errmsg\<close> is the text
  \<open>PQcancel\<close> left in the buffer.
\<close>

theorem cancel_outcome:
  "(PQstatus db \<noteq> CONNECTION_OK
      \<longrightarrow> (case cancel errmsg db of (r, errmsg', db') \<Rightarrow>
             r = True \<and> errmsg' = errmsg \<and> same_members db db' \<and> sent db' = sent db))
   \<and> (PQstatus db = CONNECTION_OK \<and> PQgetCancel db = Some (rc, reason) \<and> rc \<noteq> 1
      \<longrightarrow> (case cancel errmsg db of (r, errmsg', db') \<Rightarrow>
             r = False \<and> errmsg' = reason \<and> same_members db db' \<and> sent db' = sent db))"
  by (simp add: cancel_def isConnected_effect PQgetCancel_def PQcancel_def same_members_def
           split: option.splits)

theorem cancel_outcome_witness:
  "PQstatus Db_new \<noteq> CONNECTION_OK
   \<and> fst (cancel ''unset'' Db_new) = True \<and> fst (snd (cancel ''unset'' Db_new)) = ''unset''
   \<and> snd (snd (cancel ''unset'' Db_new))
       = Db_new\<lparr>logged := [(LogDebug, ''no db connection''),
                            (LogDebug, ''not connected - no query to cancel'')]\<rparr>
   \<and> PQstatus (Db_new\<lparr>conn := Some (example_server [] None)\<rparr>) = CONNECTION_OK
   \<and> PQgetCancel (Db_new\<lparr>conn := Some (example_server [] None)\<rparr>) = Some (0, ''connect() failed'')
   \<and> fst (cancel ''unset'' (Db_new\<lparr>conn := Some (example_server [] None)\<rparr>)) = False
   \<and> fst (snd (cancel ''unset'' (Db_new\<lparr>conn := Some (example_server [] None)\<rparr>)))
       = ''connect() failed''"
  using cancel_outcome [of Db_new "''unset''" 0 "[]"]
    cancel_outcome [of "Db_new\<lparr>conn := Some (example_server [] None)\<rparr>" "''unset''" 0
      "''connect() failed''"]
  by (simp add: ex_defs cancel_def isConnected_def PQstatus_def PQgetCancel_def PQcancel_def
        log_debug_def log_error_def same_members_def)

text \<open>When \<open>PQgetCancel\<close> yields no handle, no request is made; \<open>cancel\<close> returns false and
  \<open>errmsg\<close> stays as it was.\<close>

lemma cancel_without_handle:
  assumes "PQstatus db = CONNECTION_OK" and "PQgetCancel db = None"
  shows "fst (cancel errmsg db) = False \<and> fst (snd (cancel errmsg db)) = errmsg"
  using assms by (simp add: cancel_def isConnected_effect PQgetCancel_def split: option.splits)

text \<open>
  C10. The constructor leaves \<open>do_commit\<close> false, \<open>failed_count\<close> 0 and \<open>in_transaction\<close>
  false. On an engine on which nobody set \<open>do_commit\<close> and every chunk succeeded, \<open>finish\<close>
  sends \<open>rollback;\<close> if a transaction is open and nothing otherwise, never \<open>commit;\<close>, and
  when it returns no transaction is open.
\<close>

theorem dry_run_by_default:
  "do_commit Db_new = False \<and> failed_count Db_new = 0 \<and> in_transaction Db_new = False
   \<and> (clean_run e db \<longrightarrow>
        (case finish e db of (r, db') \<Rightarrow>
           sent db' = sent db @ (if in_transaction db then [''rollback;''] else [])
           \<and> (r = Inr () \<longrightarrow> \<not> in_transaction db')))"
proof -
  have "case finish e db of (r, db') \<Rightarrow>
           sent db' = sent db @ (if in_transaction db then [''rollback;''] else [])
           \<and> (r = Inr () \<longrightarrow> \<not> in_transaction db')" if "clean_run e db"
  proof -
    from that have i: "\<not> do_commit db" "failed_count db = 0"
      using clean_run_invariant by simp_all
    obtain r db' where x: "finish e db = (r, db')" by (cases "finish e db")
    from finish_effect [OF x] i x show ?thesis by (simp add: closing_statement_def)
  qed
  then show ?thesis by (simp add: Db_new_def)
qed

theorem dry_run_by_default_witness:
  "clean_run example_env (snd (snd (runChunk example_env (new_chunk 1 1 ''select 1;'' ''one'')
       (snd (connect (Some (example_server [] None)) Db_new)))))
   \<and> in_transaction (snd (snd (runChunk example_env (new_chunk 1 1 ''select 1;'' ''one'')
       (snd (connect (Some (example_server [] None)) Db_new)))))
   \<and> fst (finish example_env (snd (snd (runChunk example_env (new_chunk 1 1 ''select 1;'' ''one'')
       (snd (connect (Some (example_server [] None)) Db_new)))))) = Inr ()
   \<and> sent (snd (finish example_env (snd (snd (runChunk example_env
       (new_chunk 1 1 ''select 1;'' ''one'')
       (snd (connect (Some (example_server [] None)) Db_new)))))))
       = [''begin;'', ''savepoint chunk;'', ''select 1;'', ''release savepoint chunk;'',
          ''rollback;'']"
proof -
  let ?db0 = "snd (connect (Some (example_server [] None)) Db_new)"
  let ?run = "runChunk example_env (new_chunk 1 1 ''select 1;'' ''one'') ?db0"
  have "clean_run example_env ?db0"
    by (rule clean_run.connected [OF clean_run.constructed])
  moreover have "?run = (Inr True, fst (snd ?run), snd (snd ?run))"
    by (simp add: prod_eq_iff connect_def ex_defs run_defs)
  ultimately have c: "clean_run example_env (snd (snd ?run))"
    by (rule clean_run.chunk_succeeded)
  with dry_run_by_default [of example_env "snd (snd ?run)"] show ?thesis
    by (simp add: connect_def ex_defs run_defs)
qed

end
